theory Spec2Isabelle
  imports Main "HOL-Library.Word"
begin

section \<open>Single-precision arithmetic as Go performs it\<close>

text \<open>
  Every number of the library is a Go \<^verbatim>\<open>float32\<close>: an IEEE 754 binary32 value, here its
  32-bit pattern (what \<^verbatim>\<open>math.Float32bits\<close> returns). Bit 31 is the sign; the low 31 bits
  are the magnitude: the 8-bit exponent field above the 23-bit fraction. A magnitude below
  \<open>0x7F800000\<close> is a finite number, \<open>0x7F800000\<close> is an infinity, anything above is a NaN.
\<close>

type_synonym float32 = "32 word"

definition f32_sign :: "float32 \<Rightarrow> bool" where
  "f32_sign x = (2 ^ 31 \<le> uint x)"

definition f32_mag :: "float32 \<Rightarrow> int" where
  "f32_mag x = uint x mod 2 ^ 31"

definition f32_mk :: "bool \<Rightarrow> int \<Rightarrow> float32" where
  "f32_mk s m = word_of_int ((if s then 2 ^ 31 else 0) + m)"

definition f32_is_nan :: "float32 \<Rightarrow> bool" where
  "f32_is_nan x = (0x7F800000 < f32_mag x)"

definition f32_is_inf :: "float32 \<Rightarrow> bool" where
  "f32_is_inf x = (f32_mag x = 0x7F800000)"

definition f32_is_finite :: "float32 \<Rightarrow> bool" where
  "f32_is_finite x = (f32_mag x < 0x7F800000)"

definition f32_is_zero :: "float32 \<Rightarrow> bool" where
  "f32_is_zero x = (f32_mag x = 0)"

definition f32_nan :: float32 where
  "f32_nan = 0x7FC00000"

text \<open>
  The number a magnitude stands for, counted in units of \<open>2\<^sup>-\<^sup>1\<^sup>4\<^sup>9\<close> (the smallest
  subnormal), so that every finite binary32 value is an integer: with exponent field \<open>E\<close>
  and fraction \<open>f\<close>, a subnormal (\<open>E = 0\<close>) is \<open>f\<close> units and a normal number is
  \<open>(2\<^sup>2\<^sup>3 + f) \<sqdot> 2\<^bsup>E - 1\<^esup>\<close> units. The pattern of infinity reads as \<open>2\<^sup>2\<^sup>7\<^sup>7\<close> units,
  that is \<open>2\<^sup>1\<^sup>2\<^sup>8\<close>, the first power of two that binary32 cannot hold.
\<close>

definition mag_val :: "int \<Rightarrow> int" where
  "mag_val m = (if m div 2 ^ 23 = 0 then m mod 2 ^ 23
                else (2 ^ 23 + m mod 2 ^ 23) * 2 ^ nat (m div 2 ^ 23 - 1))"

definition f32_val :: "float32 \<Rightarrow> int" where
  "f32_val x = (if f32_sign x then - mag_val (f32_mag x) else mag_val (f32_mag x))"

text \<open>
  Rounding to nearest, ties to even, of the non-negative quotient \<open>N / D\<close> units
  (\<open>0 < D\<close>). \<open>lower_idx\<close> finds, bit by bit from the top, the largest magnitude whose
  value does not exceed the quotient; \<open>round_mag\<close> then picks that magnitude or the next
  one, whichever is nearer, and the even one at a tie. A quotient of \<open>2\<^sup>1\<^sup>2\<^sup>8\<close> or more, and
  one that rounds up from the largest finite number, gives the pattern of infinity.
\<close>

fun lower_idx :: "nat \<Rightarrow> int \<Rightarrow> int \<Rightarrow> int \<Rightarrow> int" where
  "lower_idx 0 n N D = n"
| "lower_idx (Suc i) n N D =
     (if mag_val (n + 2 ^ i) * D \<le> N then lower_idx i (n + 2 ^ i) N D
      else lower_idx i n N D)"

definition round_mag :: "int \<Rightarrow> int \<Rightarrow> int" where
  "round_mag N D =
     (if 2 ^ 277 * D \<le> N then 0x7F800000
      else let m = lower_idx 31 0 N D;
               mid = (mag_val m + mag_val (m + 1)) * D
           in if 2 * N < mid then m
              else if mid < 2 * N then m + 1
              else if even m then m else m + 1)"

text \<open>
  The operators \<^verbatim>\<open>+ - * /\<close> on \<^verbatim>\<open>float32\<close>: the exact result, rounded once. A NaN
  operand gives a NaN, and so do \<open>\<infinity> - \<infinity>\<close>, \<open>0 \<sqdot> \<infinity>\<close>, \<open>0 / 0\<close> and \<open>\<infinity> / \<infinity>\<close>; a finite
  non-zero number divided by zero is an infinity. An exact sum of zero is \<open>+0\<close> unless
  both operands are \<open>-0\<close>. Each operation is rounded on its own (no fused multiply-add).
\<close>

definition f32_neg :: "float32 \<Rightarrow> float32" where
  "f32_neg x = f32_mk (\<not> f32_sign x) (f32_mag x)"

definition f32_add :: "float32 \<Rightarrow> float32 \<Rightarrow> float32" where
  "f32_add x y =
     (if f32_is_nan x \<or> f32_is_nan y then f32_nan
      else if f32_is_inf x then
        (if f32_is_inf y \<and> f32_sign x \<noteq> f32_sign y then f32_nan else x)
      else if f32_is_inf y then y
      else let r = f32_val x + f32_val y
           in if r = 0 then f32_mk (f32_sign x \<and> f32_sign y) 0
              else f32_mk (r < 0) (round_mag \<bar>r\<bar> 1))"

definition f32_sub :: "float32 \<Rightarrow> float32 \<Rightarrow> float32" where
  "f32_sub x y = f32_add x (f32_neg y)"

definition f32_mul :: "float32 \<Rightarrow> float32 \<Rightarrow> float32" where
  "f32_mul x y =
     (if f32_is_nan x \<or> f32_is_nan y then f32_nan
      else if f32_is_inf x \<or> f32_is_inf y then
        (if f32_is_zero x \<or> f32_is_zero y then f32_nan
         else f32_mk (f32_sign x \<noteq> f32_sign y) 0x7F800000)
      else f32_mk (f32_sign x \<noteq> f32_sign y)
             (round_mag (mag_val (f32_mag x) * mag_val (f32_mag y)) (2 ^ 149)))"

definition f32_div :: "float32 \<Rightarrow> float32 \<Rightarrow> float32" where
  "f32_div x y =
     (if f32_is_nan x \<or> f32_is_nan y then f32_nan
      else if f32_is_inf x then
        (if f32_is_inf y then f32_nan else f32_mk (f32_sign x \<noteq> f32_sign y) 0x7F800000)
      else if f32_is_inf y then f32_mk (f32_sign x \<noteq> f32_sign y) 0
      else if f32_is_zero y then
        (if f32_is_zero x then f32_nan else f32_mk (f32_sign x \<noteq> f32_sign y) 0x7F800000)
      else f32_mk (f32_sign x \<noteq> f32_sign y)
             (round_mag (mag_val (f32_mag x) * 2 ^ 149) (mag_val (f32_mag y))))"

text \<open>
  The comparisons \<^verbatim>\<open>==\<close>, \<^verbatim>\<open><\<close> and \<^verbatim>\<open><=\<close>: false as soon as an operand is a NaN, and
  on the values otherwise, so that \<open>-0\<close> and \<open>+0\<close> compare equal.
\<close>

definition f32_eq :: "float32 \<Rightarrow> float32 \<Rightarrow> bool" where
  "f32_eq x y = (\<not> f32_is_nan x \<and> \<not> f32_is_nan y \<and> f32_val x = f32_val y)"

definition f32_lt :: "float32 \<Rightarrow> float32 \<Rightarrow> bool" where
  "f32_lt x y = (\<not> f32_is_nan x \<and> \<not> f32_is_nan y \<and> f32_val x < f32_val y)"

definition f32_le :: "float32 \<Rightarrow> float32 \<Rightarrow> bool" where
  "f32_le x y = (\<not> f32_is_nan x \<and> \<not> f32_is_nan y \<and> f32_val x \<le> f32_val y)"

text \<open>
  The built-in functions \<^verbatim>\<open>min\<close> and \<^verbatim>\<open>max\<close> on floating-point operands: a NaN as soon
  as an argument is a NaN, and \<open>-0\<close> below \<open>+0\<close>.
\<close>

definition f32_min :: "float32 \<Rightarrow> float32 \<Rightarrow> float32" where
  "f32_min x y =
     (if f32_is_nan x \<or> f32_is_nan y then f32_nan
      else if f32_val x < f32_val y then x
      else if f32_val y < f32_val x then y
      else if f32_sign x then x else y)"

definition f32_max :: "float32 \<Rightarrow> float32 \<Rightarrow> float32" where
  "f32_max x y =
     (if f32_is_nan x \<or> f32_is_nan y then f32_nan
      else if f32_val x < f32_val y then y
      else if f32_val y < f32_val x then x
      else if f32_sign x then y else x)"

text \<open>
  The conversion \<^verbatim>\<open>float32(k)\<close> of an integer: the nearest binary32 value. A
  \<^verbatim>\<open>time.Duration\<close> is a signed 64-bit count of nanoseconds.
\<close>

type_synonym duration = "64 word"

definition f32_of_int :: "int \<Rightarrow> float32" where
  "f32_of_int k = f32_mk (k < 0) (round_mag (\<bar>k\<bar> * 2 ^ 149) 1)"

definition f32_of_duration :: "duration \<Rightarrow> float32" where
  "f32_of_duration d = f32_of_int (sint d)"

text \<open>The constants of the source, as binary32 patterns: \<open>0\<close>, \<open>1\<close> and \<open>10\<^sup>9\<close>.\<close>

definition f32_zero :: float32 where
  "f32_zero = 0"

definition f32_one :: float32 where
  "f32_one = 0x3F800000"

definition f32_1e9 :: float32 where
  "f32_1e9 = 0x4E6E6B28"

section \<open>float32.go\<close>

text \<open>\<^verbatim>\<open>MaxFloat32 = 0x1p127 * (1 + (1 - 0x1p-23))\<close>, the largest finite binary32 value.\<close>

definition MaxFloat32 :: float32 where
  "MaxFloat32 = 0x7F7FFFFF"

definition IsNaN :: "float32 \<Rightarrow> bool" where
  "IsNaN f = (\<not> f32_eq f f)"

definition seconds :: "duration \<Rightarrow> float32" where
  "seconds d = f32_div (f32_of_duration d) f32_1e9"

section \<open>controller.go: the basic controller\<close>

record ControllerConfig =
  ProportionalGain :: float32
  IntegralGain :: float32
  DerivativeGain :: float32

record ControllerState =
  ControlError :: float32
  ControlErrorIntegral :: float32
  ControlErrorDerivative :: float32
  ControlSignal :: float32

record ControllerInput =
  ReferenceSignal :: float32
  ActualSignal :: float32
  SamplingInterval :: duration

definition Controller_Update ::
  "ControllerConfig \<Rightarrow> ControllerState \<Rightarrow> ControllerInput \<Rightarrow> ControllerState" where
  "Controller_Update c s i =
     (let previousError = ControlError s;
          e = f32_sub (ReferenceSignal i) (ActualSignal i);
          d = f32_div (f32_sub e previousError) (seconds (SamplingInterval i));
          g = f32_add (ControlErrorIntegral s) (f32_mul e (seconds (SamplingInterval i)))
      in \<lparr> ControlError = e,
           ControlErrorIntegral = g,
           ControlErrorDerivative = d,
           ControlSignal =
             f32_add (f32_add (f32_mul (ProportionalGain c) e) (f32_mul (IntegralGain c) g))
                     (f32_mul (DerivativeGain c) d) \<rparr>)"

definition Controller_Reset :: "ControllerState \<Rightarrow> ControllerState" where
  "Controller_Reset s =
     \<lparr> ControlError = f32_zero, ControlErrorIntegral = f32_zero,
       ControlErrorDerivative = f32_zero, ControlSignal = f32_zero \<rparr>"

section \<open>pi\_controller.go: the PI controller with a clamped integral\<close>

record PIControllerConfig =
  pi_ProportionalGain :: float32
  pi_IntegralGain :: float32
  pi_MaxIntegralError :: float32
  pi_MinIntegralError :: float32
  pi_MaxOutput :: float32
  pi_MinOutput :: float32

record PIControllerState =
  pi_ControlErrorIntegral :: float32
  pi_ControlSignal :: float32

record PIControllerInput =
  pi_ReferenceSignal :: float32
  pi_ActualSignal :: float32
  pi_SamplingInterval :: duration

definition PIController_Update ::
  "PIControllerConfig \<Rightarrow> PIControllerState \<Rightarrow> PIControllerInput \<Rightarrow> PIControllerState" where
  "PIController_Update c s i =
     (let controlError = f32_sub (pi_ReferenceSignal i) (pi_ActualSignal i);
          g = f32_max (pi_MinIntegralError c)
                (f32_min (pi_MaxIntegralError c)
                   (f32_add (pi_ControlErrorIntegral s)
                      (f32_mul controlError (seconds (pi_SamplingInterval i)))))
      in \<lparr> pi_ControlErrorIntegral = g,
           pi_ControlSignal =
             f32_add (f32_mul (pi_ProportionalGain c) controlError)
                     (f32_mul (pi_IntegralGain c) g) \<rparr>)"

definition PIController_Reset :: "PIControllerState \<Rightarrow> PIControllerState" where
  "PIController_Reset s = \<lparr> pi_ControlErrorIntegral = f32_zero, pi_ControlSignal = f32_zero \<rparr>"

section \<open>The anti-windup controller\<close>

record AntiWindupControllerConfig =
  aw_ProportionalGain :: float32
  aw_IntegralGain :: float32
  aw_DerivativeGain :: float32
  aw_AntiWindUpGain :: float32
  aw_IntegralDischargeTimeConstant :: float32
  aw_LowPassTimeConstant :: duration
  aw_MaxOutput :: float32
  aw_MinOutput :: float32

record AntiWindupControllerState =
  aw_ControlError :: float32
  aw_ControlErrorIntegrand :: float32
  aw_ControlErrorIntegral :: float32
  aw_ControlErrorDerivative :: float32
  aw_ControlSignal :: float32
  aw_UnsaturatedControlSignal :: float32

record AntiWindupControllerInput =
  aw_ReferenceSignal :: float32
  aw_ActualSignal :: float32
  aw_FeedForwardSignal :: float32
  aw_SamplingInterval :: duration

text \<open>
  The four state clamps of both advanced controllers are written
  \<^verbatim>\<open>max(-MaxFloat32, min(MaxFloat32, x))\<close> in the source.
\<close>

definition clamp_MaxFloat32 :: "float32 \<Rightarrow> float32" where
  "clamp_MaxFloat32 x = f32_max (f32_neg MaxFloat32) (f32_min MaxFloat32 x)"

definition AntiWindupController_Reset ::
  "AntiWindupControllerState \<Rightarrow> AntiWindupControllerState" where
  "AntiWindupController_Reset s =
     \<lparr> aw_ControlError = f32_zero, aw_ControlErrorIntegrand = f32_zero,
       aw_ControlErrorIntegral = f32_zero, aw_ControlErrorDerivative = f32_zero,
       aw_ControlSignal = f32_zero, aw_UnsaturatedControlSignal = f32_zero \<rparr>"

definition AntiWindupController_Update ::
  "AntiWindupControllerConfig \<Rightarrow> AntiWindupControllerState \<Rightarrow> AntiWindupControllerInput
     \<Rightarrow> AntiWindupControllerState" where
  "AntiWindupController_Update c s i =
     (let e = f32_sub (aw_ReferenceSignal i) (aw_ActualSignal i);
          controlErrorIntegral =
            f32_add (f32_mul (aw_ControlErrorIntegrand s) (seconds (aw_SamplingInterval i)))
                    (aw_ControlErrorIntegral s);
          controlErrorDerivative =
            f32_div
              (f32_add
                 (f32_mul (f32_div f32_one (seconds (aw_LowPassTimeConstant c)))
                          (f32_sub e (aw_ControlError s)))
                 (aw_ControlErrorDerivative s))
              (f32_add
                 (f32_div (seconds (aw_SamplingInterval i)) (seconds (aw_LowPassTimeConstant c)))
                 f32_one);
          u = f32_add
                (f32_add
                   (f32_add (f32_mul e (aw_ProportionalGain c))
                            (f32_mul (aw_IntegralGain c) controlErrorIntegral))
                   (f32_mul (aw_DerivativeGain c) controlErrorDerivative))
                (aw_FeedForwardSignal i);
          v = f32_max (aw_MinOutput c) (f32_min (aw_MaxOutput c) u);
          g = f32_add e (f32_mul (aw_AntiWindUpGain c) (f32_sub v u))
      in \<lparr> aw_ControlError = clamp_MaxFloat32 e,
           aw_ControlErrorIntegrand = clamp_MaxFloat32 g,
           aw_ControlErrorIntegral = clamp_MaxFloat32 controlErrorIntegral,
           aw_ControlErrorDerivative = clamp_MaxFloat32 controlErrorDerivative,
           aw_ControlSignal = v,
           aw_UnsaturatedControlSignal = u \<rparr>)"

definition AntiWindupController_DischargeIntegral ::
  "AntiWindupControllerConfig \<Rightarrow> AntiWindupControllerState \<Rightarrow> duration
     \<Rightarrow> AntiWindupControllerState" where
  "AntiWindupController_DischargeIntegral c s dt =
     s \<lparr> aw_ControlErrorIntegrand := f32_zero,
         aw_ControlErrorIntegral :=
           f32_mul
             (f32_max f32_zero
                (f32_min
                   (f32_sub f32_one (f32_div (seconds dt) (aw_IntegralDischargeTimeConstant c)))
                   f32_one))
             (aw_ControlErrorIntegral s) \<rparr>"

section \<open>pi\_controller.go: the tracking controller\<close>

record TrackingControllerConfig =
  tr_ProportionalGain :: float32
  tr_IntegralGain :: float32
  tr_DerivativeGain :: float32
  tr_AntiWindUpGain :: float32
  tr_IntegralDischargeTimeConstant :: float32
  tr_LowPassTimeConstant :: duration
  tr_MaxOutput :: float32
  tr_MinOutput :: float32

record TrackingControllerState =
  tr_ControlError :: float32
  tr_ControlErrorIntegrand :: float32
  tr_ControlErrorIntegral :: float32
  tr_ControlErrorDerivative :: float32
  tr_ControlSignal :: float32
  tr_UnsaturatedControlSignal :: float32

record TrackingControllerInput =
  tr_ReferenceSignal :: float32
  tr_ActualSignal :: float32
  tr_FeedForwardSignal :: float32
  tr_AppliedControlSignal :: float32
  tr_SamplingInterval :: duration

definition TrackingController_Reset ::
  "TrackingControllerState \<Rightarrow> TrackingControllerState" where
  "TrackingController_Reset s =
     \<lparr> tr_ControlError = f32_zero, tr_ControlErrorIntegrand = f32_zero,
       tr_ControlErrorIntegral = f32_zero, tr_ControlErrorDerivative = f32_zero,
       tr_ControlSignal = f32_zero, tr_UnsaturatedControlSignal = f32_zero \<rparr>"

definition TrackingController_Update ::
  "TrackingControllerConfig \<Rightarrow> TrackingControllerState \<Rightarrow> TrackingControllerInput
     \<Rightarrow> TrackingControllerState" where
  "TrackingController_Update c s i =
     (let e = f32_sub (tr_ReferenceSignal i) (tr_ActualSignal i);
          controlErrorIntegral =
            f32_add (f32_mul (tr_ControlErrorIntegrand s) (seconds (tr_SamplingInterval i)))
                    (tr_ControlErrorIntegral s);
          controlErrorDerivative =
            f32_div
              (f32_add
                 (f32_mul (f32_div f32_one (seconds (tr_LowPassTimeConstant c)))
                          (f32_sub e (tr_ControlError s)))
                 (tr_ControlErrorDerivative s))
              (f32_add
                 (f32_div (seconds (tr_SamplingInterval i)) (seconds (tr_LowPassTimeConstant c)))
                 f32_one);
          u = f32_add
                (f32_add
                   (f32_add (f32_mul e (tr_ProportionalGain c))
                            (f32_mul (tr_IntegralGain c) controlErrorIntegral))
                   (f32_mul (tr_DerivativeGain c) controlErrorDerivative))
                (tr_FeedForwardSignal i);
          v = f32_max (tr_MinOutput c) (f32_min (tr_MaxOutput c) u);
          g = f32_add e (f32_mul (tr_AntiWindUpGain c) (f32_sub (tr_AppliedControlSignal i) u))
      in \<lparr> tr_ControlError = clamp_MaxFloat32 e,
           tr_ControlErrorIntegrand = clamp_MaxFloat32 g,
           tr_ControlErrorIntegral = clamp_MaxFloat32 controlErrorIntegral,
           tr_ControlErrorDerivative = clamp_MaxFloat32 controlErrorDerivative,
           tr_ControlSignal = v,
           tr_UnsaturatedControlSignal = u \<rparr>)"

definition TrackingController_DischargeIntegral ::
  "TrackingControllerConfig \<Rightarrow> TrackingControllerState \<Rightarrow> duration
     \<Rightarrow> TrackingControllerState" where
  "TrackingController_DischargeIntegral c s dt =
     s \<lparr> tr_ControlErrorIntegrand := f32_zero,
         tr_ControlErrorIntegral :=
           f32_mul
             (f32_max f32_zero
                (f32_min
                   (f32_sub f32_one (f32_div (seconds dt) (tr_IntegralDischargeTimeConstant c)))
                   f32_one))
             (tr_ControlErrorIntegral s) \<rparr>"

text \<open>A controller driven through a sequence of inputs, one \<^verbatim>\<open>Update\<close> per input.\<close>

definition PIController_run ::
  "PIControllerConfig \<Rightarrow> PIControllerState \<Rightarrow> PIControllerInput list \<Rightarrow> PIControllerState" where
  "PIController_run c s is = foldl (PIController_Update c) s is"

definition AntiWindupController_run ::
  "AntiWindupControllerConfig \<Rightarrow> AntiWindupControllerState \<Rightarrow> AntiWindupControllerInput list
     \<Rightarrow> AntiWindupControllerState" where
  "AntiWindupController_run c s is = foldl (AntiWindupController_Update c) s is"

definition TrackingController_run ::
  "TrackingControllerConfig \<Rightarrow> TrackingControllerState \<Rightarrow> TrackingControllerInput list
     \<Rightarrow> TrackingControllerState" where
  "TrackingController_run c s is = foldl (TrackingController_Update c) s is"

section \<open>Comparing the two advanced controllers\<close>

text \<open>
  The tracking controller's records have the fields of the anti-windup controller's, and
  its input one more, \<^verbatim>\<open>AppliedControlSignal\<close>. These functions read a tracking record
  as the anti-windup record with the same field values.
\<close>

definition aw_config_of :: "TrackingControllerConfig \<Rightarrow> AntiWindupControllerConfig" where
  "aw_config_of c =
     \<lparr> aw_ProportionalGain = tr_ProportionalGain c,
       aw_IntegralGain = tr_IntegralGain c,
       aw_DerivativeGain = tr_DerivativeGain c,
       aw_AntiWindUpGain = tr_AntiWindUpGain c,
       aw_IntegralDischargeTimeConstant = tr_IntegralDischargeTimeConstant c,
       aw_LowPassTimeConstant = tr_LowPassTimeConstant c,
       aw_MaxOutput = tr_MaxOutput c,
       aw_MinOutput = tr_MinOutput c \<rparr>"

definition aw_state_of :: "TrackingControllerState \<Rightarrow> AntiWindupControllerState" where
  "aw_state_of s =
     \<lparr> aw_ControlError = tr_ControlError s,
       aw_ControlErrorIntegrand = tr_ControlErrorIntegrand s,
       aw_ControlErrorIntegral = tr_ControlErrorIntegral s,
       aw_ControlErrorDerivative = tr_ControlErrorDerivative s,
       aw_ControlSignal = tr_ControlSignal s,
       aw_UnsaturatedControlSignal = tr_UnsaturatedControlSignal s \<rparr>"

definition aw_input_of :: "TrackingControllerInput \<Rightarrow> AntiWindupControllerInput" where
  "aw_input_of i =
     \<lparr> aw_ReferenceSignal = tr_ReferenceSignal i,
       aw_ActualSignal = tr_ActualSignal i,
       aw_FeedForwardSignal = tr_FeedForwardSignal i,
       aw_SamplingInterval = tr_SamplingInterval i \<rparr>"

section \<open>The update formulas as the specification words them\<close>

text \<open>
  The integral of one step, \<open>integrand_prev \<sqdot> dt + integral_prev\<close>, and the low-pass
  filtered derivative, \<open>[(1/\<tau>) \<sqdot> (error - prevError) + prevDerivative] / (dt/\<tau> + 1)\<close>, each
  operation in single precision and in this order. They are stated apart from the
  \<^verbatim>\<open>Update\<close> functions, to be compared with them.
\<close>

definition spec_integral :: "float32 \<Rightarrow> float32 \<Rightarrow> float32 \<Rightarrow> float32" where
  "spec_integral integrand_prev dt integral_prev =
     f32_add (f32_mul integrand_prev dt) integral_prev"

definition spec_derivative ::
  "float32 \<Rightarrow> float32 \<Rightarrow> float32 \<Rightarrow> float32 \<Rightarrow> float32 \<Rightarrow> float32" where
  "spec_derivative tau dt err prev_err prev_derivative =
     f32_div (f32_add (f32_mul (f32_div f32_one tau) (f32_sub err prev_err)) prev_derivative)
             (f32_add (f32_div dt tau) f32_one)"

section \<open>Example configurations and inputs\<close>

text \<open>The controller of the package example: gains 2, 1 and 1; reference 10, 100 ms.\<close>

definition example_config :: ControllerConfig where
  "example_config =
     \<lparr> ProportionalGain = f32_of_int 2, IntegralGain = f32_of_int 1,
       DerivativeGain = f32_of_int 1 \<rparr>"

definition example_input :: ControllerInput where
  "example_input =
     \<lparr> ReferenceSignal = f32_of_int 10, ActualSignal = f32_of_int 0,
       SamplingInterval = 100000000 \<rparr>"

text \<open>
  A PI-tuned anti-windup controller: gains 2, 1 and 0, anti-windup gain 1, both time
  constants one second, output in \<open>[-1, 1]\<close>; and the same as a tracking controller.
\<close>

definition aw_config1 :: AntiWindupControllerConfig where
  "aw_config1 =
     \<lparr> aw_ProportionalGain = f32_of_int 2, aw_IntegralGain = f32_of_int 1,
       aw_DerivativeGain = f32_of_int 0, aw_AntiWindUpGain = f32_of_int 1,
       aw_IntegralDischargeTimeConstant = f32_of_int 1,
       aw_LowPassTimeConstant = 1000000000,
       aw_MaxOutput = f32_of_int 1, aw_MinOutput = f32_of_int (- 1) \<rparr>"

definition tr_config1 :: TrackingControllerConfig where
  "tr_config1 =
     \<lparr> tr_ProportionalGain = f32_of_int 2, tr_IntegralGain = f32_of_int 1,
       tr_DerivativeGain = f32_of_int 0, tr_AntiWindUpGain = f32_of_int 1,
       tr_IntegralDischargeTimeConstant = f32_of_int 1,
       tr_LowPassTimeConstant = 1000000000,
       tr_MaxOutput = f32_of_int 1, tr_MinOutput = f32_of_int (- 1) \<rparr>"

definition aw_state0 :: AntiWindupControllerState where
  "aw_state0 =
     \<lparr> aw_ControlError = f32_zero, aw_ControlErrorIntegrand = f32_zero,
       aw_ControlErrorIntegral = f32_zero, aw_ControlErrorDerivative = f32_zero,
       aw_ControlSignal = f32_zero, aw_UnsaturatedControlSignal = f32_zero \<rparr>"

definition tr_state0 :: TrackingControllerState where
  "tr_state0 =
     \<lparr> tr_ControlError = f32_zero, tr_ControlErrorIntegrand = f32_zero,
       tr_ControlErrorIntegral = f32_zero, tr_ControlErrorDerivative = f32_zero,
       tr_ControlSignal = f32_zero, tr_UnsaturatedControlSignal = f32_zero \<rparr>"

text \<open>An ordinary step: reference 10, measurement 0, no feed-forward, 100 ms.\<close>

definition aw_input_step :: AntiWindupControllerInput where
  "aw_input_step =
     \<lparr> aw_ReferenceSignal = f32_of_int 10, aw_ActualSignal = f32_of_int 0,
       aw_FeedForwardSignal = f32_of_int 0, aw_SamplingInterval = 100000000 \<rparr>"

definition tr_input_step :: TrackingControllerInput where
  "tr_input_step =
     \<lparr> tr_ReferenceSignal = f32_of_int 10, tr_ActualSignal = f32_of_int 0,
       tr_FeedForwardSignal = f32_of_int 0, tr_AppliedControlSignal = f32_of_int 1,
       tr_SamplingInterval = 100000000 \<rparr>"

text \<open>
  Finite inputs at the edge of the binary32 range, one second after the previous call:
  a reference of \<^verbatim>\<open>MaxFloat32\<close> against a measurement of \<open>0\<close>, and against a measurement
  of \<^verbatim>\<open>-MaxFloat32\<close>.
\<close>

definition aw_input_large :: AntiWindupControllerInput where
  "aw_input_large =
     \<lparr> aw_ReferenceSignal = MaxFloat32, aw_ActualSignal = f32_of_int 0,
       aw_FeedForwardSignal = f32_of_int 0, aw_SamplingInterval = 1000000000 \<rparr>"

definition aw_input_opposed :: AntiWindupControllerInput where
  "aw_input_opposed =
     \<lparr> aw_ReferenceSignal = MaxFloat32, aw_ActualSignal = f32_neg MaxFloat32,
       aw_FeedForwardSignal = f32_of_int 0, aw_SamplingInterval = 1000000000 \<rparr>"

text \<open>A state whose integrand sits at the clamp, and a quiet input two seconds later.\<close>

definition aw_state_wound :: AntiWindupControllerState where
  "aw_state_wound = aw_state0 \<lparr> aw_ControlErrorIntegrand := MaxFloat32 \<rparr>"

definition aw_input_quiet :: AntiWindupControllerInput where
  "aw_input_quiet =
     \<lparr> aw_ReferenceSignal = f32_of_int 0, aw_ActualSignal = f32_of_int 0,
       aw_FeedForwardSignal = f32_of_int 0, aw_SamplingInterval = 2000000000 \<rparr>"

text \<open>
  A PI controller with gains 1 and 1 and the integral clamped to \<open>[-1, 1]\<close>; an ordinary
  step, and finite opposed inputs with a sampling interval of zero.
\<close>

definition pi_config1 :: PIControllerConfig where
  "pi_config1 =
     \<lparr> pi_ProportionalGain = f32_of_int 1, pi_IntegralGain = f32_of_int 1,
       pi_MaxIntegralError = f32_of_int 1, pi_MinIntegralError = f32_of_int (- 1),
       pi_MaxOutput = f32_of_int 1, pi_MinOutput = f32_of_int (- 1) \<rparr>"

definition pi_state0 :: PIControllerState where
  "pi_state0 = \<lparr> pi_ControlErrorIntegral = f32_zero, pi_ControlSignal = f32_zero \<rparr>"

definition pi_input_step :: PIControllerInput where
  "pi_input_step =
     \<lparr> pi_ReferenceSignal = f32_of_int 10, pi_ActualSignal = f32_of_int 0,
       pi_SamplingInterval = 100000000 \<rparr>"

definition pi_input_opposed :: PIControllerInput where
  "pi_input_opposed =
     \<lparr> pi_ReferenceSignal = MaxFloat32, pi_ActualSignal = f32_neg MaxFloat32,
       pi_SamplingInterval = 0 \<rparr>"

text \<open>A quiet setpoint with a feed-forward of 1, 100 ms after the previous call.\<close>

definition aw_input_ff :: AntiWindupControllerInput where
  "aw_input_ff =
     \<lparr> aw_ReferenceSignal = f32_of_int 0, aw_ActualSignal = f32_of_int 0,
       aw_FeedForwardSignal = f32_of_int 1, aw_SamplingInterval = 100000000 \<rparr>"

definition tr_input_ff :: TrackingControllerInput where
  "tr_input_ff =
     \<lparr> tr_ReferenceSignal = f32_of_int 0, tr_ActualSignal = f32_of_int 0,
       tr_FeedForwardSignal = f32_of_int 1, tr_AppliedControlSignal = f32_of_int 1,
       tr_SamplingInterval = 100000000 \<rparr>"

text \<open>Configurations and inputs all of whose numbers are finite (so none is a NaN).\<close>

definition aw_config_finite :: "AntiWindupControllerConfig \<Rightarrow> bool" where
  "aw_config_finite c =
     (f32_is_finite (aw_ProportionalGain c) \<and> f32_is_finite (aw_IntegralGain c)
      \<and> f32_is_finite (aw_DerivativeGain c) \<and> f32_is_finite (aw_AntiWindUpGain c)
      \<and> f32_is_finite (aw_IntegralDischargeTimeConstant c)
      \<and> f32_is_finite (aw_MaxOutput c) \<and> f32_is_finite (aw_MinOutput c))"

definition aw_input_finite :: "AntiWindupControllerInput \<Rightarrow> bool" where
  "aw_input_finite i =
     (f32_is_finite (aw_ReferenceSignal i) \<and> f32_is_finite (aw_ActualSignal i)
      \<and> f32_is_finite (aw_FeedForwardSignal i))"

definition pi_input_finite :: "PIControllerInput \<Rightarrow> bool" where
  "pi_input_finite i =
     (f32_is_finite (pi_ReferenceSignal i) \<and> f32_is_finite (pi_ActualSignal i))"

section \<open>Bit patterns, values and rounding\<close>

lemma f32_mag_nonneg: "0 \<le> f32_mag x"
  by (simp add: f32_mag_def)

lemma f32_mag_less: "f32_mag x < 2 ^ 31"
  by (simp add: f32_mag_def)

lemma uint_f32_mk:
  assumes "0 \<le> m" "m < 2 ^ 31"
  shows "uint (f32_mk s m) = (if s then 2 ^ 31 else 0) + m"
proof -
  have "uint (word_of_int ((if s then 2 ^ 31 else 0) + m) :: 32 word)
        = ((if s then 2 ^ 31 else 0) + m) mod 2 ^ 32"
    by (simp only: uint_word_of_int) simp
  also have "\<dots> = (if s then 2 ^ 31 else 0) + m"
    using assms by (simp add: mod_pos_pos_trivial)
  finally show ?thesis by (simp add: f32_mk_def)
qed

lemma f32_mag_mk: "0 \<le> m \<Longrightarrow> m < 2 ^ 31 \<Longrightarrow> f32_mag (f32_mk s m) = m"
  by (simp add: f32_mag_def uint_f32_mk)

lemma f32_sign_mk: "0 \<le> m \<Longrightarrow> m < 2 ^ 31 \<Longrightarrow> f32_sign (f32_mk s m) = s"
  by (simp add: f32_sign_def uint_f32_mk)


lemma f32_mk_sign_mag: "f32_mk (f32_sign x) (f32_mag x) = x"
proof -
  have b: "0 \<le> uint x" "uint x < 2 ^ 32" using uint_bounded[of x] by simp_all
  have "(if f32_sign x then 2 ^ 31 else 0) + f32_mag x = uint x"
  proof (cases "f32_sign x")
    case True
    then have g: "2 ^ 31 \<le> uint x" by (simp add: f32_sign_def)
    have "uint x mod 2 ^ 31 = uint x - 2 ^ 31"
      by (rule int_mod_pos_eq [where q = 1]) (use g b in simp_all)
    then show ?thesis using True by (simp add: f32_mag_def)
  next
    case False
    then have "uint x < 2 ^ 31" by (simp add: f32_sign_def)
    then have "uint x mod 2 ^ 31 = uint x"
      by (intro mod_pos_pos_trivial) simp_all
    then show ?thesis using False by (simp add: f32_mag_def)
  qed
  then show ?thesis by (simp add: f32_mk_def)
qed

lemma mag_val_decomp:
  assumes "0 \<le> f" "f < 2 ^ 23"
  shows "mag_val (2 ^ 23 * E + f) = (if E = 0 then f else (2 ^ 23 + f) * 2 ^ nat (E - 1))"
proof -
  have "(2 ^ 23 * E + f) div 2 ^ 23 = E"
    by (rule int_div_pos_eq [where r = f]) (use assms in simp_all)
  moreover have "(2 ^ 23 * E + f) mod 2 ^ 23 = f"
    by (rule int_mod_pos_eq [where q = E]) (use assms in simp_all)
  ultimately show ?thesis unfolding mag_val_def by simp
qed

lemma mag_val_Suc:
  assumes "0 \<le> m" shows "mag_val m < mag_val (m + 1)"
proof -
  define E where "E = m div 2 ^ 23"
  define f where "f = m mod 2 ^ 23"
  have m: "m = 2 ^ 23 * E + f" by (simp add: E_def f_def)
  have f: "0 \<le> f" "f < 2 ^ 23" by (simp_all add: f_def)
  have E: "0 \<le> E" using assms by (simp add: E_def pos_imp_zdiv_nonneg_iff)
  have v: "mag_val m = (if E = 0 then f else (2 ^ 23 + f) * 2 ^ nat (E - 1))"
    unfolding m using f by (rule mag_val_decomp)
  show ?thesis
  proof (cases "f + 1 < 2 ^ 23")
    case True
    have "mag_val (2 ^ 23 * E + (f + 1))
            = (if E = 0 then f + 1 else (2 ^ 23 + (f + 1)) * 2 ^ nat (E - 1))"
      by (rule mag_val_decomp) (use f True in simp_all)
    then have w: "mag_val (m + 1) = (if E = 0 then f + 1 else (2 ^ 23 + (f + 1)) * 2 ^ nat (E - 1))"
      by (simp add: m add.assoc)
    show ?thesis unfolding v w by simp
  next
    case False
    then have fe: "f = 2 ^ 23 - 1" using f by simp
    have a: "mag_val (2 ^ 23 * (E + 1) + 0)
               = (if E + 1 = 0 then 0 else (2 ^ 23 + 0) * 2 ^ nat (E + 1 - 1))"
      by (rule mag_val_decomp) simp_all
    have b: "m + 1 = 2 ^ 23 * (E + 1) + 0" by (simp add: m fe)
    have w: "mag_val (m + 1) = 2 ^ 23 * 2 ^ nat E"
      unfolding b a using E by simp
    show ?thesis
    proof (cases "E = 0")
      case True
      then show ?thesis unfolding v w by (simp add: fe)
    next
      case False
      then have "nat E = Suc (nat (E - 1))" using E by simp
      then have "(2::int) ^ nat E = 2 * 2 ^ nat (E - 1)" by simp
      moreover have "(0::int) < 2 ^ nat (E - 1)" by simp
      ultimately show ?thesis unfolding v w using False by (simp add: fe)
    qed
  qed
qed

lemma mag_val_mono_aux: "0 \<le> m \<Longrightarrow> mag_val m < mag_val (m + 1 + int k)"
proof (induction k)
  case 0
  then show ?case using mag_val_Suc[of m] by simp
next
  case (Suc k)
  have "mag_val (m + 1 + int k) < mag_val (m + 1 + int k + 1)"
    by (rule mag_val_Suc) (use Suc.prems in simp)
  then show ?case using Suc by (simp add: add.assoc add.commute)
qed

lemma mag_val_strict_mono:
  assumes "0 \<le> m" "m < n" shows "mag_val m < mag_val n"
proof -
  have "n = m + 1 + int (nat (n - m - 1))" using assms by simp
  then show ?thesis using mag_val_mono_aux[OF assms(1), of "nat (n - m - 1)"] by simp
qed

lemma mag_val_mono: "0 \<le> m \<Longrightarrow> m \<le> n \<Longrightarrow> mag_val m \<le> mag_val n"
  using mag_val_strict_mono[of m n] by (cases "m = n") simp_all

lemma mag_val_less_iff: "0 \<le> m \<Longrightarrow> 0 \<le> n \<Longrightarrow> mag_val m < mag_val n \<longleftrightarrow> m < n"
  using mag_val_strict_mono[of m n] mag_val_mono[of n m] by (cases "m < n") auto

lemma mag_val_le_iff: "0 \<le> m \<Longrightarrow> 0 \<le> n \<Longrightarrow> mag_val m \<le> mag_val n \<longleftrightarrow> m \<le> n"
  using mag_val_less_iff[of n m] by auto

lemma mag_val_eq_iff: "0 \<le> m \<Longrightarrow> 0 \<le> n \<Longrightarrow> mag_val m = mag_val n \<longleftrightarrow> m = n"
  using mag_val_le_iff[of m n] mag_val_le_iff[of n m] by auto

lemma mag_val_0: "mag_val 0 = 0"
  by (simp add: mag_val_def)

lemma mag_val_nonneg: "0 \<le> m \<Longrightarrow> 0 \<le> mag_val m"
  using mag_val_mono[of 0 m] by (simp add: mag_val_0)


lemma mag_val_inf: "mag_val 0x7F800000 = 2 ^ 277"
  by (simp add: mag_val_def)

lemma lower_idx_bounds:
  assumes "0 \<le> n" "mag_val n * D \<le> N" "N < mag_val (n + 2 ^ i) * D"
  shows "n \<le> lower_idx i n N D \<and> mag_val (lower_idx i n N D) * D \<le> N
           \<and> N < mag_val (lower_idx i n N D + 1) * D"
  using assms
proof (induction i arbitrary: n)
  case 0
  then show ?case by simp
next
  case (Suc i)
  show ?case
  proof (cases "mag_val (n + 2 ^ i) * D \<le> N")
    case True
    have "n + 2 ^ i \<le> lower_idx i (n + 2 ^ i) N D
            \<and> mag_val (lower_idx i (n + 2 ^ i) N D) * D \<le> N
            \<and> N < mag_val (lower_idx i (n + 2 ^ i) N D + 1) * D"
    proof (rule Suc.IH)
      show "0 \<le> n + 2 ^ i" using Suc.prems(1) by simp
      show "mag_val (n + 2 ^ i) * D \<le> N" by (rule True)
      show "N < mag_val (n + 2 ^ i + 2 ^ i) * D" using Suc.prems(3) by (simp add: add.assoc)
    qed
    moreover have "(0::int) \<le> 2 ^ i" by simp
    ultimately have "n \<le> lower_idx i (n + 2 ^ i) N D
            \<and> mag_val (lower_idx i (n + 2 ^ i) N D) * D \<le> N
            \<and> N < mag_val (lower_idx i (n + 2 ^ i) N D + 1) * D"
      by linarith
    then show ?thesis using True by simp
  next
    case False
    have "n \<le> lower_idx i n N D \<and> mag_val (lower_idx i n N D) * D \<le> N
            \<and> N < mag_val (lower_idx i n N D + 1) * D"
    proof (rule Suc.IH)
      show "0 \<le> n" by (rule Suc.prems(1))
      show "mag_val n * D \<le> N" by (rule Suc.prems(2))
      show "N < mag_val (n + 2 ^ i) * D" using False by simp
    qed
    then show ?thesis using False by simp
  qed
qed

lemma round_mag_cases:
  assumes "0 \<le> N" "0 < D" "N < 2 ^ 277 * D"
  obtains m where "0 \<le> m" "m < 0x7F800000" "mag_val m * D \<le> N" "N < mag_val (m + 1) * D"
    "round_mag N D = m \<or> round_mag N D = m + 1"
    "2 * N < (mag_val m + mag_val (m + 1)) * D \<Longrightarrow> round_mag N D = m"
proof -
  define m where "m = lower_idx 31 0 N D"
  have big: "N < 2 ^ 278 * D"
  proof -
    have "(2::int) ^ 277 * D \<le> 2 ^ 278 * D" using assms(2) by simp
    then show ?thesis using assms(3) by simp
  qed
  have t: "mag_val (0 + 2 ^ 31) = 2 ^ 278" by (simp add: mag_val_def)
  have top: "N < mag_val (0 + 2 ^ 31) * D" unfolding t by (rule big)
  have bot: "mag_val 0 * D \<le> N" using assms(1) by (simp add: mag_val_0)
  have b: "0 \<le> m \<and> mag_val m * D \<le> N \<and> N < mag_val (m + 1) * D"
    unfolding m_def by (rule lower_idx_bounds [OF _ bot top]) simp
  then have "mag_val m * D < mag_val 0x7F800000 * D"
    using assms(3) by (simp add: mag_val_inf)
  then have "mag_val m < mag_val 0x7F800000" using assms(2) by simp
  then have lt: "m < 0x7F800000" using b by (simp add: mag_val_less_iff)
  have nov: "\<not> 2 ^ 277 * D \<le> N" using assms(3) by simp
  have r: "round_mag N D =
             (let mid = (mag_val m + mag_val (m + 1)) * D
              in if 2 * N < mid then m else if mid < 2 * N then m + 1
                 else if even m then m else m + 1)"
    unfolding round_mag_def m_def using nov by (simp add: Let_def)
  show thesis
  proof (rule that [of m])
    show "0 \<le> m" using b by simp
    show "m < 0x7F800000" by (rule lt)
    show "mag_val m * D \<le> N" using b by simp
    show "N < mag_val (m + 1) * D" using b by simp
    show "round_mag N D = m \<or> round_mag N D = m + 1" unfolding r by (simp add: Let_def)
    show "2 * N < (mag_val m + mag_val (m + 1)) * D \<Longrightarrow> round_mag N D = m"
      unfolding r by (simp add: Let_def)
  qed
qed

lemma round_mag_overflow: "2 ^ 277 * D \<le> N \<Longrightarrow> round_mag N D = 0x7F800000"
  by (simp add: round_mag_def)

lemma round_mag_range:
  assumes "0 \<le> N" "0 < D"
  shows "0 \<le> round_mag N D \<and> round_mag N D \<le> 0x7F800000"
proof (cases "2 ^ 277 * D \<le> N")
  case True
  then show ?thesis by (simp add: round_mag_overflow)
next
  case False
  then have "N < 2 ^ 277 * D" by simp
  from round_mag_cases [OF assms this] obtain m where
    "0 \<le> m" "m < 0x7F800000" "round_mag N D = m \<or> round_mag N D = m + 1"
    by blast
  then show ?thesis by auto
qed

lemma round_mag_exact:
  assumes "0 \<le> k" "k \<le> 0x7F800000" "0 < D"
  shows "round_mag (mag_val k * D) D = k"
proof (cases "k = 0x7F800000")
  case True
  then show ?thesis by (simp add: round_mag_overflow mag_val_inf)
next
  case False
  then have "k < 0x7F800000" using assms(2) by simp
  then have "mag_val k < mag_val 0x7F800000" using assms(1) by (simp add: mag_val_less_iff)
  then have lt: "mag_val k * D < 2 ^ 277 * D" using assms(3) by (simp add: mag_val_inf)
  have nn: "0 \<le> mag_val k * D" using assms(1,3) by (simp add: mag_val_nonneg)
  from round_mag_cases [OF nn assms(3) lt] obtain m where m:
    "0 \<le> m" "mag_val m * D \<le> mag_val k * D" "mag_val k * D < mag_val (m + 1) * D"
    "2 * (mag_val k * D) < (mag_val m + mag_val (m + 1)) * D \<Longrightarrow> round_mag (mag_val k * D) D = m"
    by blast
  have "mag_val m \<le> mag_val k" "mag_val k < mag_val (m + 1)" using m(2,3) assms(3) by simp_all
  then have "m \<le> k" "k < m + 1" using m(1) assms(1) by (simp_all add: mag_val_less_iff mag_val_le_iff)
  then have mk: "m = k" by simp
  have "mag_val k < mag_val (k + 1)" using assms(1) by (rule mag_val_Suc)
  then have "2 * mag_val k < mag_val k + mag_val (k + 1)" by simp
  then have "(2 * mag_val k) * D < (mag_val k + mag_val (k + 1)) * D"
    using assms(3) by (simp only: mult_less_cancel_right_pos)
  then show ?thesis using m(4) mk by (simp add: mult.assoc)
qed

lemma round_mag_le:
  assumes "0 \<le> N" "0 < D" "0 \<le> k" "k \<le> 0x7F800000" "N \<le> mag_val k * D"
  shows "round_mag N D \<le> k"
proof (cases "N = mag_val k * D")
  case True
  then show ?thesis using round_mag_exact [OF assms(3,4,2)] by simp
next
  case False
  then have lt: "N < mag_val k * D" using assms(5) by simp
  have "mag_val k \<le> mag_val 0x7F800000" using assms(3,4) by (simp add: mag_val_le_iff)
  then have "mag_val k * D \<le> 2 ^ 277 * D" using assms(2) by (simp add: mag_val_inf)
  then have "N < 2 ^ 277 * D" using lt by simp
  from round_mag_cases [OF assms(1,2) this] obtain m where m:
    "0 \<le> m" "mag_val m * D \<le> N" "round_mag N D = m \<or> round_mag N D = m + 1"
    by blast
  have "mag_val m * D < mag_val k * D" using m(2) lt by simp
  then have "mag_val m < mag_val k" using assms(2) by simp
  then have "m < k" using m(1) assms(3) by (simp add: mag_val_less_iff)
  then show ?thesis using m(3) by auto
qed

lemma round_mag_ge:
  assumes "0 \<le> N" "0 < D" "0 \<le> k" "k \<le> 0x7F800000" "mag_val k * D \<le> N"
  shows "k \<le> round_mag N D"
proof (cases "2 ^ 277 * D \<le> N")
  case True
  then show ?thesis using assms(4) by (simp add: round_mag_overflow)
next
  case False
  then have "N < 2 ^ 277 * D" by simp
  from round_mag_cases [OF assms(1,2) this] obtain m where m:
    "0 \<le> m" "N < mag_val (m + 1) * D" "round_mag N D = m \<or> round_mag N D = m + 1"
    by blast
  have "mag_val k * D < mag_val (m + 1) * D" using m(2) assms(5) by simp
  then have "mag_val k < mag_val (m + 1)" using assms(2) by simp
  then have "k < m + 1" using m(1) assms(3) by (simp add: mag_val_less_iff)
  then show ?thesis using m(3) by auto
qed

section \<open>NaN, ordering and saturation\<close>

lemma f32_nan_is_nan: "f32_is_nan f32_nan"
  by (simp add: f32_is_nan_def f32_nan_def f32_mag_def)

lemma f32_mag_neg: "f32_mag (f32_neg x) = f32_mag x"
  unfolding f32_neg_def by (rule f32_mag_mk) (rule f32_mag_nonneg, rule f32_mag_less)

lemma f32_sign_neg: "f32_sign (f32_neg x) = (\<not> f32_sign x)"
  unfolding f32_neg_def by (rule f32_sign_mk) (rule f32_mag_nonneg, rule f32_mag_less)

lemma f32_is_nan_neg: "f32_is_nan (f32_neg x) = f32_is_nan x"
  by (simp add: f32_is_nan_def f32_mag_neg)

lemma f32_val_neg: "f32_val (f32_neg x) = - f32_val x"
  by (simp add: f32_val_def f32_mag_neg f32_sign_neg)

lemma f32_add_nan: "f32_is_nan x \<or> f32_is_nan y \<Longrightarrow> f32_is_nan (f32_add x y)"
  by (auto simp add: f32_add_def f32_nan_is_nan)

lemma f32_sub_nan: "f32_is_nan x \<or> f32_is_nan y \<Longrightarrow> f32_is_nan (f32_sub x y)"
  by (auto simp add: f32_sub_def f32_add_def f32_is_nan_neg f32_nan_is_nan)

lemma f32_mul_nan: "f32_is_nan x \<or> f32_is_nan y \<Longrightarrow> f32_is_nan (f32_mul x y)"
  by (auto simp add: f32_mul_def f32_nan_is_nan)

lemma f32_div_nan: "f32_is_nan x \<or> f32_is_nan y \<Longrightarrow> f32_is_nan (f32_div x y)"
  by (auto simp add: f32_div_def f32_nan_is_nan)

lemma f32_min_nan: "f32_is_nan (f32_min x y) \<longleftrightarrow> f32_is_nan x \<or> f32_is_nan y"
  by (auto simp add: f32_min_def f32_nan_is_nan)

lemma f32_max_nan: "f32_is_nan (f32_max x y) \<longleftrightarrow> f32_is_nan x \<or> f32_is_nan y"
  by (auto simp add: f32_max_def f32_nan_is_nan)

lemma f32_val_min:
  "\<not> f32_is_nan x \<Longrightarrow> \<not> f32_is_nan y \<Longrightarrow> f32_val (f32_min x y) = min (f32_val x) (f32_val y)"
  by (auto simp add: f32_min_def)

lemma f32_val_max:
  "\<not> f32_is_nan x \<Longrightarrow> \<not> f32_is_nan y \<Longrightarrow> f32_val (f32_max x y) = max (f32_val x) (f32_val y)"
  by (auto simp add: f32_max_def)

lemma f32_min_cases: "f32_is_nan (f32_min x y) \<or> f32_min x y = x \<or> f32_min x y = y"
  by (auto simp add: f32_min_def f32_nan_is_nan)

lemma f32_max_cases: "f32_is_nan (f32_max x y) \<or> f32_max x y = x \<or> f32_max x y = y"
  by (auto simp add: f32_max_def f32_nan_is_nan)

text \<open>Saturation between two bounds.\<close>

lemma saturate_nan: "f32_is_nan (f32_max lo (f32_min hi x)) \<longleftrightarrow> f32_is_nan lo \<or> f32_is_nan hi \<or> f32_is_nan x"
  by (auto simp add: f32_max_nan f32_min_nan)

lemma saturate_range:
  assumes "f32_le lo hi" "\<not> f32_is_nan x"
  shows "f32_le lo (f32_max lo (f32_min hi x)) \<and> f32_le (f32_max lo (f32_min hi x)) hi"
proof -
  have n: "\<not> f32_is_nan lo" "\<not> f32_is_nan hi" "f32_val lo \<le> f32_val hi"
    using assms(1) by (simp_all add: f32_le_def)
  have m: "\<not> f32_is_nan (f32_min hi x)" using n assms(2) by (simp add: f32_min_nan)
  have r: "\<not> f32_is_nan (f32_max lo (f32_min hi x))" using n m by (simp add: f32_max_nan)
  have "f32_val (f32_max lo (f32_min hi x)) = max (f32_val lo) (min (f32_val hi) (f32_val x))"
    using n m assms(2) by (simp add: f32_val_max f32_val_min)
  then show ?thesis using n r by (simp add: f32_le_def)
qed

text \<open>Equal values are equal patterns, except for the two zeros.\<close>

lemma f32_val_zero_iff: "f32_val x = 0 \<longleftrightarrow> f32_is_zero x"
proof -
  have "mag_val (f32_mag x) = 0 \<longleftrightarrow> f32_mag x = 0"
    using mag_val_eq_iff [of "f32_mag x" 0] by (simp add: f32_mag_nonneg mag_val_0)
  then show ?thesis by (simp add: f32_val_def f32_is_zero_def)
qed

lemma f32_val_inj:
  assumes "f32_val x = f32_val y" "\<not> f32_is_zero x"
  shows "x = y"
proof -
  have nx: "0 \<le> mag_val (f32_mag x)" and ny: "0 \<le> mag_val (f32_mag y)"
    by (simp_all add: mag_val_nonneg f32_mag_nonneg)
  have "f32_val x \<noteq> 0" using assms(2) by (simp add: f32_val_zero_iff)
  then have px: "0 < mag_val (f32_mag x)" using nx by (auto simp add: f32_val_def split: if_splits)
  have s: "f32_sign x = f32_sign y"
    using assms(1) px nx ny by (auto simp add: f32_val_def split: if_splits)
  then have "mag_val (f32_mag x) = mag_val (f32_mag y)"
    using assms(1) by (auto simp add: f32_val_def split: if_splits)
  then have "f32_mag x = f32_mag y"
    by (simp add: mag_val_eq_iff f32_mag_nonneg)
  then have "f32_mk (f32_sign x) (f32_mag x) = f32_mk (f32_sign y) (f32_mag y)"
    using s by simp
  then show ?thesis by (simp add: f32_mk_sign_mag)
qed

lemma saturate_inside:
  assumes "f32_le lo x" "f32_le x hi"
  shows "f32_eq (f32_max lo (f32_min hi x)) x"
    and "\<not> f32_is_zero x \<Longrightarrow> f32_max lo (f32_min hi x) = x"
proof -
  have n: "\<not> f32_is_nan lo" "\<not> f32_is_nan hi" "\<not> f32_is_nan x"
    "f32_val lo \<le> f32_val x" "f32_val x \<le> f32_val hi"
    using assms by (simp_all add: f32_le_def)
  have m: "\<not> f32_is_nan (f32_min hi x)" using n by (simp add: f32_min_nan)
  have r: "\<not> f32_is_nan (f32_max lo (f32_min hi x))" using n m by (simp add: f32_max_nan)
  have v: "f32_val (f32_max lo (f32_min hi x)) = f32_val x"
    using n m by (simp add: f32_val_max f32_val_min)
  show "f32_eq (f32_max lo (f32_min hi x)) x" using v r n by (simp add: f32_eq_def)
  show "f32_max lo (f32_min hi x) = x" if "\<not> f32_is_zero x"
    using f32_val_inj [of x "f32_max lo (f32_min hi x)"] v that by simp
qed

text \<open>Finite, infinite, NaN.\<close>

lemma f32_is_inf_val: "f32_is_inf x \<Longrightarrow> \<bar>f32_val x\<bar> = 2 ^ 277"
  by (simp add: f32_is_inf_def f32_val_def mag_val_inf)

lemma f32_is_finite_val: "f32_is_finite x \<Longrightarrow> \<bar>f32_val x\<bar> < 2 ^ 277"
proof -
  assume "f32_is_finite x"
  then have "mag_val (f32_mag x) < mag_val 0x7F800000"
    by (simp add: f32_is_finite_def mag_val_less_iff f32_mag_nonneg)
  moreover have "0 \<le> mag_val (f32_mag x)" by (simp add: mag_val_nonneg f32_mag_nonneg)
  ultimately show ?thesis by (simp add: f32_val_def mag_val_inf)
qed

lemma f32_classes:
  "f32_is_finite x \<longleftrightarrow> \<not> f32_is_nan x \<and> \<not> f32_is_inf x"
  by (auto simp add: f32_is_finite_def f32_is_nan_def f32_is_inf_def)

lemma between_finite_not_inf:
  assumes "f32_is_finite lo" "f32_is_finite hi" "f32_val lo \<le> f32_val r" "f32_val r \<le> f32_val hi"
  shows "\<not> f32_is_inf r"
proof
  assume "f32_is_inf r"
  then have "\<bar>f32_val r\<bar> = 2 ^ 277" by (rule f32_is_inf_val)
  moreover have "\<bar>f32_val lo\<bar> < 2 ^ 277"
    by (rule f32_is_finite_val [OF assms(1)])
  moreover have "\<bar>f32_val hi\<bar> < 2 ^ 277"
    by (rule f32_is_finite_val [OF assms(2)])
  ultimately show False using assms(3,4) by linarith
qed

lemma saturate_not_inf:
  assumes "f32_is_finite lo" "f32_is_finite hi"
  shows "\<not> f32_is_inf (f32_max lo (f32_min hi x))"
proof (cases "f32_is_nan x")
  case True
  then have "f32_is_nan (f32_max lo (f32_min hi x))" by (simp add: saturate_nan)
  then show ?thesis by (simp add: f32_is_nan_def f32_is_inf_def)
next
  case False
  have n: "\<not> f32_is_nan lo" "\<not> f32_is_nan hi" using assms by (simp_all add: f32_classes)
  have m: "\<not> f32_is_nan (f32_min hi x)" using n False by (simp add: f32_min_nan)
  have v: "f32_val (f32_max lo (f32_min hi x)) = max (f32_val lo) (min (f32_val hi) (f32_val x))"
    using n m False by (simp add: f32_val_max f32_val_min)
  show ?thesis
  proof (cases "f32_val lo \<le> f32_val hi")
    case True
    show ?thesis
      by (rule between_finite_not_inf [OF assms]) (use v True in simp_all)
  next
    case False
    then have "f32_val (f32_max lo (f32_min hi x)) = f32_val lo" using v by simp
    then show ?thesis
      using between_finite_not_inf [OF assms(1) assms(1), of "f32_max lo (f32_min hi x)"] by simp
  qed
qed

lemma MaxFloat32_finite: "f32_is_finite MaxFloat32"
  by (simp add: f32_is_finite_def MaxFloat32_def f32_mag_def)

lemma neg_MaxFloat32_finite: "f32_is_finite (f32_neg MaxFloat32)"
  using MaxFloat32_finite by (simp add: f32_is_finite_def f32_mag_neg)

lemma clamp_MaxFloat32_not_inf: "\<not> f32_is_inf (clamp_MaxFloat32 x)"
  unfolding clamp_MaxFloat32_def
  by (rule saturate_not_inf [OF neg_MaxFloat32_finite MaxFloat32_finite])

lemma clamp_MaxFloat32_nan: "f32_is_nan (clamp_MaxFloat32 x) \<longleftrightarrow> f32_is_nan x"
  using MaxFloat32_finite neg_MaxFloat32_finite
  by (simp add: clamp_MaxFloat32_def saturate_nan f32_classes)

lemma f32_le_MaxFloat32: 
  assumes "f32_is_finite x" 
  shows "f32_le (f32_neg MaxFloat32) x \<and> f32_le x MaxFloat32"
proof -
  have m: "f32_mag MaxFloat32 = 0x7F7FFFFF" "\<not> f32_sign MaxFloat32"
    by (simp_all add: MaxFloat32_def f32_mag_def f32_sign_def)
  have "f32_mag x \<le> 0x7F7FFFFF" using assms by (simp add: f32_is_finite_def)
  then have "mag_val (f32_mag x) \<le> mag_val (f32_mag MaxFloat32)"
    unfolding m by (intro mag_val_mono f32_mag_nonneg)
  moreover have "0 \<le> mag_val (f32_mag x)" by (simp add: mag_val_nonneg f32_mag_nonneg)
  ultimately have "- f32_val MaxFloat32 \<le> f32_val x \<and> f32_val x \<le> f32_val MaxFloat32"
    using m(2) by (simp add: f32_val_def)
  then show ?thesis
    using assms MaxFloat32_finite by (simp add: f32_le_def f32_val_neg f32_is_nan_neg f32_classes)
qed

lemma clamp_MaxFloat32_finite:
  assumes "f32_is_finite x" shows "clamp_MaxFloat32 x = x"
proof (cases "f32_is_zero x")
  case False
  then show ?thesis
    unfolding clamp_MaxFloat32_def
    using saturate_inside(2) f32_le_MaxFloat32 [OF assms] by blast
next
  case True
  then have z: "f32_val x = 0" by (simp add: f32_val_zero_iff)
  have p: "0 < f32_val MaxFloat32"
    by (simp add: f32_val_def MaxFloat32_def f32_mag_def f32_sign_def mag_val_def)
  have n: "\<not> f32_is_nan x" "\<not> f32_is_nan MaxFloat32" "\<not> f32_is_nan (f32_neg MaxFloat32)"
    using assms MaxFloat32_finite by (simp_all add: f32_classes f32_is_nan_neg)
  have "f32_min MaxFloat32 x = x" using z p n by (simp add: f32_min_def)
  moreover have "f32_max (f32_neg MaxFloat32) x = x"
    using z p n by (simp add: f32_max_def f32_val_neg)
  ultimately show ?thesis by (simp add: clamp_MaxFloat32_def)
qed

text \<open>A non-empty run ends with an \<^verbatim>\<open>Update\<close>.\<close>

lemma run_last: "is \<noteq> [] \<Longrightarrow> \<exists>s0 i. foldl f s is = f s0 i"
  by (cases "is" rule: rev_cases) auto

section \<open>NaN goes through every clamp\<close>

text \<open>
  C8. A NaN that enters a clamp built as \<^verbatim>\<open>max(lo, min(hi, x))\<close> (the state clamps to
  \<open>[-MaxFloat32, MaxFloat32]\<close>, the output saturation and the PI integral clamp) comes out
  as a NaN, whatever the bounds. So a NaN reference or measurement reaches the stored
  state of every controller: all four fields of the basic controller, both fields of the
  PI controller, and for the anti-windup and tracking controllers the error, derivative,
  unsaturated signal, control signal and integrand at once and the integral, which
  integrates the previous integrand, at the next \<^verbatim>\<open>Update\<close>.
\<close>

theorem NaN_propagates:
  "(f32_is_nan x \<longrightarrow>
      f32_is_nan (f32_max lo (f32_min hi x)) \<and> f32_is_nan (clamp_MaxFloat32 x))
   \<and> (f32_is_nan (ReferenceSignal i1) \<or> f32_is_nan (ActualSignal i1) \<longrightarrow>
      f32_is_nan (ControlError (Controller_Update c1 s1 i1))
      \<and> f32_is_nan (ControlErrorIntegral (Controller_Update c1 s1 i1))
      \<and> f32_is_nan (ControlErrorDerivative (Controller_Update c1 s1 i1))
      \<and> f32_is_nan (ControlSignal (Controller_Update c1 s1 i1)))
   \<and> (f32_is_nan (pi_ReferenceSignal i2) \<or> f32_is_nan (pi_ActualSignal i2) \<longrightarrow>
      f32_is_nan (pi_ControlErrorIntegral (PIController_Update c2 s2 i2))
      \<and> f32_is_nan (pi_ControlSignal (PIController_Update c2 s2 i2)))
   \<and> (f32_is_nan (aw_ReferenceSignal i3) \<or> f32_is_nan (aw_ActualSignal i3) \<longrightarrow>
      f32_is_nan (aw_ControlError (AntiWindupController_Update c3 s3 i3))
      \<and> f32_is_nan (aw_ControlErrorDerivative (AntiWindupController_Update c3 s3 i3))
      \<and> f32_is_nan (aw_UnsaturatedControlSignal (AntiWindupController_Update c3 s3 i3))
      \<and> f32_is_nan (aw_ControlSignal (AntiWindupController_Update c3 s3 i3))
      \<and> f32_is_nan (aw_ControlErrorIntegrand (AntiWindupController_Update c3 s3 i3))
      \<and> f32_is_nan (aw_ControlErrorIntegral
           (AntiWindupController_Update c3 (AntiWindupController_Update c3 s3 i3) j3)))
   \<and> (f32_is_nan (tr_ReferenceSignal i4) \<or> f32_is_nan (tr_ActualSignal i4) \<longrightarrow>
      f32_is_nan (tr_ControlError (TrackingController_Update c4 s4 i4))
      \<and> f32_is_nan (tr_ControlErrorDerivative (TrackingController_Update c4 s4 i4))
      \<and> f32_is_nan (tr_UnsaturatedControlSignal (TrackingController_Update c4 s4 i4))
      \<and> f32_is_nan (tr_ControlSignal (TrackingController_Update c4 s4 i4))
      \<and> f32_is_nan (tr_ControlErrorIntegrand (TrackingController_Update c4 s4 i4))
      \<and> f32_is_nan (tr_ControlErrorIntegral
           (TrackingController_Update c4 (TrackingController_Update c4 s4 i4) j4)))"
proof (intro conjI impI)
  assume "f32_is_nan x"
  then show "f32_is_nan (f32_max lo (f32_min hi x))" by (simp add: saturate_nan)
  show "f32_is_nan (clamp_MaxFloat32 x)" using \<open>f32_is_nan x\<close> by (simp add: clamp_MaxFloat32_nan)
next
  assume "f32_is_nan (ReferenceSignal i1) \<or> f32_is_nan (ActualSignal i1)"
  then have e: "f32_is_nan (f32_sub (ReferenceSignal i1) (ActualSignal i1))" by (rule f32_sub_nan)
  show "f32_is_nan (ControlError (Controller_Update c1 s1 i1))"
    using e by (simp add: Controller_Update_def Let_def)
  show "f32_is_nan (ControlErrorIntegral (Controller_Update c1 s1 i1))"
    using e by (simp add: Controller_Update_def Let_def f32_add_nan f32_mul_nan)
  show "f32_is_nan (ControlErrorDerivative (Controller_Update c1 s1 i1))"
    using e by (simp add: Controller_Update_def Let_def f32_div_nan f32_sub_nan)
  show "f32_is_nan (ControlSignal (Controller_Update c1 s1 i1))"
    using e by (simp add: Controller_Update_def Let_def f32_add_nan f32_mul_nan)
next
  assume "f32_is_nan (pi_ReferenceSignal i2) \<or> f32_is_nan (pi_ActualSignal i2)"
  then have e: "f32_is_nan (f32_sub (pi_ReferenceSignal i2) (pi_ActualSignal i2))"
    by (rule f32_sub_nan)
  show "f32_is_nan (pi_ControlErrorIntegral (PIController_Update c2 s2 i2))"
    using e by (simp add: PIController_Update_def Let_def saturate_nan f32_add_nan f32_mul_nan)
  show "f32_is_nan (pi_ControlSignal (PIController_Update c2 s2 i2))"
    using e by (simp add: PIController_Update_def Let_def f32_add_nan f32_mul_nan)
next
  assume "f32_is_nan (aw_ReferenceSignal i3) \<or> f32_is_nan (aw_ActualSignal i3)"
  then have e: "f32_is_nan (f32_sub (aw_ReferenceSignal i3) (aw_ActualSignal i3))"
    by (rule f32_sub_nan)
  show "f32_is_nan (aw_ControlError (AntiWindupController_Update c3 s3 i3))"
    using e by (simp add: AntiWindupController_Update_def Let_def clamp_MaxFloat32_nan)
  show "f32_is_nan (aw_ControlErrorDerivative (AntiWindupController_Update c3 s3 i3))"
    using e by (simp add: AntiWindupController_Update_def Let_def clamp_MaxFloat32_nan
        f32_div_nan f32_add_nan f32_mul_nan f32_sub_nan)
  show u: "f32_is_nan (aw_UnsaturatedControlSignal (AntiWindupController_Update c3 s3 i3))"
    using e by (simp add: AntiWindupController_Update_def Let_def f32_add_nan f32_mul_nan)
  show "f32_is_nan (aw_ControlSignal (AntiWindupController_Update c3 s3 i3))"
    using u by (simp add: AntiWindupController_Update_def Let_def saturate_nan)
  show g: "f32_is_nan (aw_ControlErrorIntegrand (AntiWindupController_Update c3 s3 i3))"
    using e by (simp add: AntiWindupController_Update_def Let_def clamp_MaxFloat32_nan f32_add_nan)
  show "f32_is_nan (aw_ControlErrorIntegral
           (AntiWindupController_Update c3 (AntiWindupController_Update c3 s3 i3) j3))"
    using g by (simp add: AntiWindupController_Update_def [of c3 _ j3] Let_def
        clamp_MaxFloat32_nan f32_add_nan f32_mul_nan)
next
  assume "f32_is_nan (tr_ReferenceSignal i4) \<or> f32_is_nan (tr_ActualSignal i4)"
  then have e: "f32_is_nan (f32_sub (tr_ReferenceSignal i4) (tr_ActualSignal i4))"
    by (rule f32_sub_nan)
  show "f32_is_nan (tr_ControlError (TrackingController_Update c4 s4 i4))"
    using e by (simp add: TrackingController_Update_def Let_def clamp_MaxFloat32_nan)
  show "f32_is_nan (tr_ControlErrorDerivative (TrackingController_Update c4 s4 i4))"
    using e by (simp add: TrackingController_Update_def Let_def clamp_MaxFloat32_nan
        f32_div_nan f32_add_nan f32_mul_nan f32_sub_nan)
  show u: "f32_is_nan (tr_UnsaturatedControlSignal (TrackingController_Update c4 s4 i4))"
    using e by (simp add: TrackingController_Update_def Let_def f32_add_nan f32_mul_nan)
  show "f32_is_nan (tr_ControlSignal (TrackingController_Update c4 s4 i4))"
    using u by (simp add: TrackingController_Update_def Let_def saturate_nan)
  show g: "f32_is_nan (tr_ControlErrorIntegrand (TrackingController_Update c4 s4 i4))"
    using e by (simp add: TrackingController_Update_def Let_def clamp_MaxFloat32_nan f32_add_nan)
  show "f32_is_nan (tr_ControlErrorIntegral
           (TrackingController_Update c4 (TrackingController_Update c4 s4 i4) j4))"
    using g by (simp add: TrackingController_Update_def [of c4 _ j4] Let_def
        clamp_MaxFloat32_nan f32_add_nan f32_mul_nan)
qed

theorem NaN_propagates_witness:
  "f32_is_nan f32_nan
   \<and> f32_is_nan (f32_max (f32_of_int (- 1)) (f32_min (f32_of_int 1) f32_nan))
   \<and> f32_is_nan (clamp_MaxFloat32 f32_nan)
   \<and> f32_is_nan (ReferenceSignal (example_input \<lparr> ReferenceSignal := f32_nan \<rparr>))
   \<and> f32_is_nan (ControlSignal (Controller_Update example_config
         \<lparr> ControlError = 0, ControlErrorIntegral = 0, ControlErrorDerivative = 0,
           ControlSignal = 0 \<rparr>
         (example_input \<lparr> ReferenceSignal := f32_nan \<rparr>)))
   \<and> f32_is_nan (pi_ReferenceSignal (pi_input_step \<lparr> pi_ReferenceSignal := f32_nan \<rparr>))
   \<and> f32_is_nan (pi_ControlErrorIntegral (PIController_Update pi_config1 pi_state0
         (pi_input_step \<lparr> pi_ReferenceSignal := f32_nan \<rparr>)))
   \<and> f32_is_nan (aw_ReferenceSignal (aw_input_step \<lparr> aw_ReferenceSignal := f32_nan \<rparr>))
   \<and> f32_is_nan (aw_ControlSignal (AntiWindupController_Update aw_config1 aw_state0
         (aw_input_step \<lparr> aw_ReferenceSignal := f32_nan \<rparr>)))
   \<and> f32_is_nan (aw_ControlErrorIntegral (AntiWindupController_Update aw_config1
         (AntiWindupController_Update aw_config1 aw_state0
            (aw_input_step \<lparr> aw_ReferenceSignal := f32_nan \<rparr>)) aw_input_step))
   \<and> f32_is_nan (tr_ReferenceSignal (tr_input_step \<lparr> tr_ReferenceSignal := f32_nan \<rparr>))
   \<and> f32_is_nan (tr_ControlSignal (TrackingController_Update tr_config1 tr_state0
         (tr_input_step \<lparr> tr_ReferenceSignal := f32_nan \<rparr>)))
   \<and> f32_is_nan (tr_ControlErrorIntegral (TrackingController_Update tr_config1
         (TrackingController_Update tr_config1 tr_state0
            (tr_input_step \<lparr> tr_ReferenceSignal := f32_nan \<rparr>)) tr_input_step))"
  using f32_nan_is_nan
    NaN_propagates [where x = f32_nan and lo = "f32_of_int (- 1)" and hi = "f32_of_int 1"
      and ?i1.0 = "example_input \<lparr> ReferenceSignal := f32_nan \<rparr>" and ?c1.0 = example_config
      and ?s1.0 = "\<lparr> ControlError = 0, ControlErrorIntegral = 0, ControlErrorDerivative = 0,
           ControlSignal = 0 \<rparr>"
      and ?i2.0 = "pi_input_step \<lparr> pi_ReferenceSignal := f32_nan \<rparr>" and ?c2.0 = pi_config1
      and ?s2.0 = pi_state0
      and ?i3.0 = "aw_input_step \<lparr> aw_ReferenceSignal := f32_nan \<rparr>" and ?c3.0 = aw_config1
      and ?s3.0 = aw_state0 and ?j3.0 = aw_input_step
      and ?i4.0 = "tr_input_step \<lparr> tr_ReferenceSignal := f32_nan \<rparr>" and ?c4.0 = tr_config1
      and ?s4.0 = tr_state0 and ?j4.0 = tr_input_step]
  by simp

section \<open>Integral and derivative of one update\<close>

text \<open>
  C4, as the claim words it, fails where the sum overflows: with the previous integrand
  at \<^verbatim>\<open>MaxFloat32\<close>, a previous integral of \<open>0\<close> and two seconds elapsed,
  \<open>integrand_prev \<sqdot> dt + integral_prev\<close> is \<open>+\<infinity>\<close>, and the integral that \<^verbatim>\<open>Update\<close> stores
  is \<^verbatim>\<open>MaxFloat32\<close>.
\<close>

theorem Update_integral_counterexample:
  "aw_ControlErrorIntegral (AntiWindupController_Update aw_config1 aw_state_wound aw_input_quiet)
     \<noteq> spec_integral (aw_ControlErrorIntegrand aw_state_wound)
          (seconds (aw_SamplingInterval aw_input_quiet))
          (aw_ControlErrorIntegral aw_state_wound)"
  by code_simp

text \<open>
  C4, amended. In one \<^verbatim>\<open>Update\<close> of the anti-windup controller, and identically of the
  tracking controller, the stored integral is the clamp to \<open>[-MaxFloat32, MaxFloat32]\<close> of
  \<open>integrand_prev \<sqdot> dt + integral_prev\<close> (the previous integrand, not the current error),
  and the stored derivative is the clamp of
  \<open>[(1/\<tau>) \<sqdot> (error - prevError) + prevDerivative] / (dt/\<tau> + 1)\<close> with that operand order;
  each equals the unclamped value whenever that value is finite. The unclamped values
  are the ones that enter the unsaturated control signal
  \<open>error \<sqdot> Kp + Ki \<sqdot> integral + Kd \<sqdot> derivative + feedForward\<close>.
\<close>

theorem Update_integral_derivative_clamped:
  "aw_ControlErrorIntegral (AntiWindupController_Update c s i)
     = clamp_MaxFloat32
         (spec_integral (aw_ControlErrorIntegrand s) (seconds (aw_SamplingInterval i))
            (aw_ControlErrorIntegral s))
   \<and> aw_ControlErrorDerivative (AntiWindupController_Update c s i)
     = clamp_MaxFloat32
         (spec_derivative (seconds (aw_LowPassTimeConstant c)) (seconds (aw_SamplingInterval i))
            (f32_sub (aw_ReferenceSignal i) (aw_ActualSignal i))
            (aw_ControlError s) (aw_ControlErrorDerivative s))
   \<and> (f32_is_finite
         (spec_integral (aw_ControlErrorIntegrand s) (seconds (aw_SamplingInterval i))
            (aw_ControlErrorIntegral s)) \<longrightarrow>
       aw_ControlErrorIntegral (AntiWindupController_Update c s i)
         = spec_integral (aw_ControlErrorIntegrand s) (seconds (aw_SamplingInterval i))
             (aw_ControlErrorIntegral s))
   \<and> (f32_is_finite
         (spec_derivative (seconds (aw_LowPassTimeConstant c)) (seconds (aw_SamplingInterval i))
            (f32_sub (aw_ReferenceSignal i) (aw_ActualSignal i))
            (aw_ControlError s) (aw_ControlErrorDerivative s)) \<longrightarrow>
       aw_ControlErrorDerivative (AntiWindupController_Update c s i)
         = spec_derivative (seconds (aw_LowPassTimeConstant c)) (seconds (aw_SamplingInterval i))
             (f32_sub (aw_ReferenceSignal i) (aw_ActualSignal i))
             (aw_ControlError s) (aw_ControlErrorDerivative s))
   \<and> aw_UnsaturatedControlSignal (AntiWindupController_Update c s i)
     = f32_add
         (f32_add
            (f32_add
               (f32_mul (f32_sub (aw_ReferenceSignal i) (aw_ActualSignal i))
                  (aw_ProportionalGain c))
               (f32_mul (aw_IntegralGain c)
                  (spec_integral (aw_ControlErrorIntegrand s) (seconds (aw_SamplingInterval i))
                     (aw_ControlErrorIntegral s))))
            (f32_mul (aw_DerivativeGain c)
               (spec_derivative (seconds (aw_LowPassTimeConstant c))
                  (seconds (aw_SamplingInterval i))
                  (f32_sub (aw_ReferenceSignal i) (aw_ActualSignal i))
                  (aw_ControlError s) (aw_ControlErrorDerivative s))))
         (aw_FeedForwardSignal i)
   \<and> tr_ControlErrorIntegral (TrackingController_Update c' s' i')
     = clamp_MaxFloat32
         (spec_integral (tr_ControlErrorIntegrand s') (seconds (tr_SamplingInterval i'))
            (tr_ControlErrorIntegral s'))
   \<and> tr_ControlErrorDerivative (TrackingController_Update c' s' i')
     = clamp_MaxFloat32
         (spec_derivative (seconds (tr_LowPassTimeConstant c')) (seconds (tr_SamplingInterval i'))
            (f32_sub (tr_ReferenceSignal i') (tr_ActualSignal i'))
            (tr_ControlError s') (tr_ControlErrorDerivative s'))
   \<and> (f32_is_finite
         (spec_integral (tr_ControlErrorIntegrand s') (seconds (tr_SamplingInterval i'))
            (tr_ControlErrorIntegral s')) \<longrightarrow>
       tr_ControlErrorIntegral (TrackingController_Update c' s' i')
         = spec_integral (tr_ControlErrorIntegrand s') (seconds (tr_SamplingInterval i'))
             (tr_ControlErrorIntegral s'))
   \<and> (f32_is_finite
         (spec_derivative (seconds (tr_LowPassTimeConstant c')) (seconds (tr_SamplingInterval i'))
            (f32_sub (tr_ReferenceSignal i') (tr_ActualSignal i'))
            (tr_ControlError s') (tr_ControlErrorDerivative s')) \<longrightarrow>
       tr_ControlErrorDerivative (TrackingController_Update c' s' i')
         = spec_derivative (seconds (tr_LowPassTimeConstant c')) (seconds (tr_SamplingInterval i'))
             (f32_sub (tr_ReferenceSignal i') (tr_ActualSignal i'))
             (tr_ControlError s') (tr_ControlErrorDerivative s'))
   \<and> tr_UnsaturatedControlSignal (TrackingController_Update c' s' i')
     = f32_add
         (f32_add
            (f32_add
               (f32_mul (f32_sub (tr_ReferenceSignal i') (tr_ActualSignal i'))
                  (tr_ProportionalGain c'))
               (f32_mul (tr_IntegralGain c')
                  (spec_integral (tr_ControlErrorIntegrand s') (seconds (tr_SamplingInterval i'))
                     (tr_ControlErrorIntegral s'))))
            (f32_mul (tr_DerivativeGain c')
               (spec_derivative (seconds (tr_LowPassTimeConstant c'))
                  (seconds (tr_SamplingInterval i'))
                  (f32_sub (tr_ReferenceSignal i') (tr_ActualSignal i'))
                  (tr_ControlError s') (tr_ControlErrorDerivative s'))))
         (tr_FeedForwardSignal i')"
proof -
  have a: "aw_ControlErrorIntegral (AntiWindupController_Update c s i)
     = clamp_MaxFloat32
         (spec_integral (aw_ControlErrorIntegrand s) (seconds (aw_SamplingInterval i))
            (aw_ControlErrorIntegral s))"
    by (simp add: AntiWindupController_Update_def Let_def spec_integral_def)
  have b: "aw_ControlErrorDerivative (AntiWindupController_Update c s i)
     = clamp_MaxFloat32
         (spec_derivative (seconds (aw_LowPassTimeConstant c)) (seconds (aw_SamplingInterval i))
            (f32_sub (aw_ReferenceSignal i) (aw_ActualSignal i))
            (aw_ControlError s) (aw_ControlErrorDerivative s))"
    by (simp add: AntiWindupController_Update_def Let_def spec_derivative_def)
  have u: "aw_UnsaturatedControlSignal (AntiWindupController_Update c s i)
     = f32_add
         (f32_add
            (f32_add
               (f32_mul (f32_sub (aw_ReferenceSignal i) (aw_ActualSignal i))
                  (aw_ProportionalGain c))
               (f32_mul (aw_IntegralGain c)
                  (spec_integral (aw_ControlErrorIntegrand s) (seconds (aw_SamplingInterval i))
                     (aw_ControlErrorIntegral s))))
            (f32_mul (aw_DerivativeGain c)
               (spec_derivative (seconds (aw_LowPassTimeConstant c))
                  (seconds (aw_SamplingInterval i))
                  (f32_sub (aw_ReferenceSignal i) (aw_ActualSignal i))
                  (aw_ControlError s) (aw_ControlErrorDerivative s))))
         (aw_FeedForwardSignal i)"
    by (simp add: AntiWindupController_Update_def Let_def spec_integral_def spec_derivative_def)
  have a': "tr_ControlErrorIntegral (TrackingController_Update c' s' i')
     = clamp_MaxFloat32
         (spec_integral (tr_ControlErrorIntegrand s') (seconds (tr_SamplingInterval i'))
            (tr_ControlErrorIntegral s'))"
    by (simp add: TrackingController_Update_def Let_def spec_integral_def)
  have b': "tr_ControlErrorDerivative (TrackingController_Update c' s' i')
     = clamp_MaxFloat32
         (spec_derivative (seconds (tr_LowPassTimeConstant c')) (seconds (tr_SamplingInterval i'))
            (f32_sub (tr_ReferenceSignal i') (tr_ActualSignal i'))
            (tr_ControlError s') (tr_ControlErrorDerivative s'))"
    by (simp add: TrackingController_Update_def Let_def spec_derivative_def)
  have u': "tr_UnsaturatedControlSignal (TrackingController_Update c' s' i')
     = f32_add
         (f32_add
            (f32_add
               (f32_mul (f32_sub (tr_ReferenceSignal i') (tr_ActualSignal i'))
                  (tr_ProportionalGain c'))
               (f32_mul (tr_IntegralGain c')
                  (spec_integral (tr_ControlErrorIntegrand s') (seconds (tr_SamplingInterval i'))
                     (tr_ControlErrorIntegral s'))))
            (f32_mul (tr_DerivativeGain c')
               (spec_derivative (seconds (tr_LowPassTimeConstant c'))
                  (seconds (tr_SamplingInterval i'))
                  (f32_sub (tr_ReferenceSignal i') (tr_ActualSignal i'))
                  (tr_ControlError s') (tr_ControlErrorDerivative s'))))
         (tr_FeedForwardSignal i')"
    by (simp add: TrackingController_Update_def Let_def spec_integral_def spec_derivative_def)
  show ?thesis
    unfolding a b a' b' u u' by (simp add: clamp_MaxFloat32_finite)
qed

theorem Update_integral_derivative_clamped_witness:
  "f32_is_finite
     (spec_integral (aw_ControlErrorIntegrand aw_state0) (seconds (aw_SamplingInterval aw_input_step))
        (aw_ControlErrorIntegral aw_state0))
   \<and> aw_ControlErrorIntegral (AntiWindupController_Update aw_config1 aw_state0 aw_input_step)
       = spec_integral (aw_ControlErrorIntegrand aw_state0)
           (seconds (aw_SamplingInterval aw_input_step)) (aw_ControlErrorIntegral aw_state0)
   \<and> f32_is_finite
       (spec_derivative (seconds (aw_LowPassTimeConstant aw_config1))
          (seconds (aw_SamplingInterval aw_input_step))
          (f32_sub (aw_ReferenceSignal aw_input_step) (aw_ActualSignal aw_input_step))
          (aw_ControlError aw_state0) (aw_ControlErrorDerivative aw_state0))
   \<and> aw_ControlErrorDerivative (AntiWindupController_Update aw_config1 aw_state0 aw_input_step)
       = spec_derivative (seconds (aw_LowPassTimeConstant aw_config1))
           (seconds (aw_SamplingInterval aw_input_step))
           (f32_sub (aw_ReferenceSignal aw_input_step) (aw_ActualSignal aw_input_step))
           (aw_ControlError aw_state0) (aw_ControlErrorDerivative aw_state0)
   \<and> f32_is_finite
       (spec_integral (tr_ControlErrorIntegrand tr_state0) (seconds (tr_SamplingInterval tr_input_step))
          (tr_ControlErrorIntegral tr_state0))
   \<and> tr_ControlErrorIntegral (TrackingController_Update tr_config1 tr_state0 tr_input_step)
       = spec_integral (tr_ControlErrorIntegrand tr_state0)
           (seconds (tr_SamplingInterval tr_input_step)) (tr_ControlErrorIntegral tr_state0)
   \<and> f32_is_finite
       (spec_derivative (seconds (tr_LowPassTimeConstant tr_config1))
          (seconds (tr_SamplingInterval tr_input_step))
          (f32_sub (tr_ReferenceSignal tr_input_step) (tr_ActualSignal tr_input_step))
          (tr_ControlError tr_state0) (tr_ControlErrorDerivative tr_state0))
   \<and> tr_ControlErrorDerivative (TrackingController_Update tr_config1 tr_state0 tr_input_step)
       = spec_derivative (seconds (tr_LowPassTimeConstant tr_config1))
           (seconds (tr_SamplingInterval tr_input_step))
           (f32_sub (tr_ReferenceSignal tr_input_step) (tr_ActualSignal tr_input_step))
           (tr_ControlError tr_state0) (tr_ControlErrorDerivative tr_state0)"
proof -
  have f1: "f32_is_finite
     (spec_integral (aw_ControlErrorIntegrand aw_state0) (seconds (aw_SamplingInterval aw_input_step))
        (aw_ControlErrorIntegral aw_state0))"
    by code_simp
  have f2: "f32_is_finite
       (spec_derivative (seconds (aw_LowPassTimeConstant aw_config1))
          (seconds (aw_SamplingInterval aw_input_step))
          (f32_sub (aw_ReferenceSignal aw_input_step) (aw_ActualSignal aw_input_step))
          (aw_ControlError aw_state0) (aw_ControlErrorDerivative aw_state0))"
    by code_simp
  have f3: "f32_is_finite
       (spec_integral (tr_ControlErrorIntegrand tr_state0) (seconds (tr_SamplingInterval tr_input_step))
          (tr_ControlErrorIntegral tr_state0))"
    by code_simp
  have f4: "f32_is_finite
       (spec_derivative (seconds (tr_LowPassTimeConstant tr_config1))
          (seconds (tr_SamplingInterval tr_input_step))
          (f32_sub (tr_ReferenceSignal tr_input_step) (tr_ActualSignal tr_input_step))
          (tr_ControlError tr_state0) (tr_ControlErrorDerivative tr_state0))"
    by code_simp
  show ?thesis
    using f1 f2 f3 f4
      Update_integral_derivative_clamped [of aw_config1 aw_state0 aw_input_step
        tr_config1 tr_state0 tr_input_step]
    by blast
qed

section \<open>Reset\<close>

text \<open>
  C9. For the basic, PI, anti-windup and tracking controllers and every prior state,
  \<^verbatim>\<open>Reset\<close> leaves every field of the state at zero (the all-zero bit pattern, \<open>+0\<close>), and
  a second \<^verbatim>\<open>Reset\<close> right after the first changes nothing.
\<close>

theorem Reset_zeroes_state:
  "ControlError (Controller_Reset s1) = 0
   \<and> ControlErrorIntegral (Controller_Reset s1) = 0
   \<and> ControlErrorDerivative (Controller_Reset s1) = 0
   \<and> ControlSignal (Controller_Reset s1) = 0
   \<and> pi_ControlErrorIntegral (PIController_Reset s2) = 0
   \<and> pi_ControlSignal (PIController_Reset s2) = 0
   \<and> aw_ControlError (AntiWindupController_Reset s3) = 0
   \<and> aw_ControlErrorIntegrand (AntiWindupController_Reset s3) = 0
   \<and> aw_ControlErrorIntegral (AntiWindupController_Reset s3) = 0
   \<and> aw_ControlErrorDerivative (AntiWindupController_Reset s3) = 0
   \<and> aw_ControlSignal (AntiWindupController_Reset s3) = 0
   \<and> aw_UnsaturatedControlSignal (AntiWindupController_Reset s3) = 0
   \<and> tr_ControlError (TrackingController_Reset s4) = 0
   \<and> tr_ControlErrorIntegrand (TrackingController_Reset s4) = 0
   \<and> tr_ControlErrorIntegral (TrackingController_Reset s4) = 0
   \<and> tr_ControlErrorDerivative (TrackingController_Reset s4) = 0
   \<and> tr_ControlSignal (TrackingController_Reset s4) = 0
   \<and> tr_UnsaturatedControlSignal (TrackingController_Reset s4) = 0
   \<and> Controller_Reset (Controller_Reset s1) = Controller_Reset s1
   \<and> PIController_Reset (PIController_Reset s2) = PIController_Reset s2
   \<and> AntiWindupController_Reset (AntiWindupController_Reset s3) = AntiWindupController_Reset s3
   \<and> TrackingController_Reset (TrackingController_Reset s4) = TrackingController_Reset s4"
  by (simp add: Controller_Reset_def PIController_Reset_def AntiWindupController_Reset_def
        TrackingController_Reset_def f32_zero_def)

section \<open>The PI controller ignores its output bounds\<close>

text \<open>
  C10. The PI controller applies no output saturation: changing \<^verbatim>\<open>MaxOutput\<close> and
  \<^verbatim>\<open>MinOutput\<close> of a configuration to any other values changes nothing in the state that
  \<^verbatim>\<open>Update\<close> produces, for one call and for any sequence of calls.
\<close>

theorem PIController_output_bounds_unused:
  "PIController_Update (c \<lparr> pi_MaxOutput := hi, pi_MinOutput := lo \<rparr>) s i
     = PIController_Update c s i
   \<and> PIController_run (c \<lparr> pi_MaxOutput := hi, pi_MinOutput := lo \<rparr>) s is
     = PIController_run c s is"
proof -
  have "PIController_Update (c \<lparr> pi_MaxOutput := hi, pi_MinOutput := lo \<rparr>)
          = PIController_Update c"
    by (intro ext) (simp add: PIController_Update_def)
  then show ?thesis by (simp add: PIController_run_def)
qed

section \<open>The package example\<close>

text \<open>
  C7. The basic controller with gains 2, 1 and 1, started from the all-zero state and
  updated once with reference 10, measurement 0 and a sampling interval of 100 ms
  (\<open>10\<^sup>8\<close> ns, divided by \<open>10\<^sup>9\<close> in single precision), ends with error 10, integral 1,
  derivative 100 and control signal 121.
\<close>

theorem Controller_Update_example:
  "Controller_Update example_config
     \<lparr> ControlError = 0, ControlErrorIntegral = 0, ControlErrorDerivative = 0,
       ControlSignal = 0 \<rparr> example_input
   = \<lparr> ControlError = f32_of_int 10, ControlErrorIntegral = f32_of_int 1,
       ControlErrorDerivative = f32_of_int 100, ControlSignal = f32_of_int 121 \<rparr>"
  by code_simp

section \<open>The tracking controller against the anti-windup controller\<close>

text \<open>
  C5. On the same configuration, state and input, \<^verbatim>\<open>Update\<close> of the tracking controller
  stores the same error, integral, derivative, unsaturated signal and saturated signal as
  \<^verbatim>\<open>Update\<close> of the anti-windup controller. Only the integrand differs: the tracking
  controller stores the clamp of \<open>e + AntiWindUpGain \<sqdot> (AppliedControlSignal - u)\<close>, the
  anti-windup controller the clamp of \<open>e + AntiWindUpGain \<sqdot> (ControlSignal - u)\<close>, where
  \<open>e\<close> is the error before its clamp and \<open>u\<close> the unsaturated signal.
\<close>

theorem TrackingController_Update_vs_AntiWindup:
  "tr_ControlError (TrackingController_Update c s i)
     = aw_ControlError
         (AntiWindupController_Update (aw_config_of c) (aw_state_of s) (aw_input_of i))
   \<and> tr_ControlErrorIntegral (TrackingController_Update c s i)
     = aw_ControlErrorIntegral
         (AntiWindupController_Update (aw_config_of c) (aw_state_of s) (aw_input_of i))
   \<and> tr_ControlErrorDerivative (TrackingController_Update c s i)
     = aw_ControlErrorDerivative
         (AntiWindupController_Update (aw_config_of c) (aw_state_of s) (aw_input_of i))
   \<and> tr_UnsaturatedControlSignal (TrackingController_Update c s i)
     = aw_UnsaturatedControlSignal
         (AntiWindupController_Update (aw_config_of c) (aw_state_of s) (aw_input_of i))
   \<and> tr_ControlSignal (TrackingController_Update c s i)
     = aw_ControlSignal
         (AntiWindupController_Update (aw_config_of c) (aw_state_of s) (aw_input_of i))
   \<and> tr_ControlErrorIntegrand (TrackingController_Update c s i)
     = clamp_MaxFloat32
         (f32_add (f32_sub (tr_ReferenceSignal i) (tr_ActualSignal i))
            (f32_mul (tr_AntiWindUpGain c)
               (f32_sub (tr_AppliedControlSignal i)
                  (tr_UnsaturatedControlSignal (TrackingController_Update c s i)))))
   \<and> aw_ControlErrorIntegrand
         (AntiWindupController_Update (aw_config_of c) (aw_state_of s) (aw_input_of i))
     = clamp_MaxFloat32
         (f32_add (f32_sub (tr_ReferenceSignal i) (tr_ActualSignal i))
            (f32_mul (tr_AntiWindUpGain c)
               (f32_sub (tr_ControlSignal (TrackingController_Update c s i))
                  (tr_UnsaturatedControlSignal (TrackingController_Update c s i)))))"
  by (simp add: TrackingController_Update_def AntiWindupController_Update_def Let_def
        aw_config_of_def aw_state_of_def aw_input_of_def)

end
